theory Spec2Isabelle
  imports Complex_Main
begin

section \<open>Data model\<close>

text \<open>
  The source is \<^verbatim>\<open>packages/react-dom-interactions/src/inner.ts\<close>. The file under
  \<^verbatim>\<open>src/\<close> holds three successive revisions of it. The \<^verbatim>\<open>inner\<close> middleware and
  the wheel handler are embedded from the last revision (the one with
  \<^verbatim>\<open>minItemsVisible\<close>), the touch momentum controller from the revision before it,
  which is the last one that contains \<^verbatim>\<open>useTouchMomentumExpandOffset\<close>.

  JavaScript numbers are embedded as \<^typ>\<open>real\<close>: the arithmetic of the source is
  read as exact arithmetic, and rounding of doubles is not modelled.
\<close>

record side_object =
  so_top :: real
  so_right :: real
  so_bottom :: real
  so_left :: real

record rect =
  rect_x :: real
  rect_y :: real
  width :: real
  height :: real

record rects =
  reference :: rect
  floating :: rect

text \<open>
  \<^verbatim>\<open>floating.style.maxHeight\<close> is a string: it is either empty (falsy) or the text
  \<^verbatim>\<open>`${n}px`\<close> written by a middleware (truthy, also for \<^verbatim>\<open>0px\<close>).
\<close>

datatype max_height = Empty | Px real

text \<open>
  The floating element as the middleware touches it. The fields hold what the code
  reads at entry and what it assigns; \<^verbatim>\<open>offsetHeight\<close> is read after the style has
  been written, so it is the answer of the browser's layout and enters the model as a
  function of the element.
\<close>

record floating_el =
  style_maxHeight :: max_height
  scrollHeight :: real
  scrollTop :: real

record item_el =
  offsetTop :: real
  offsetHeight :: real

record middleware_arguments =
  coord_x :: real
  coord_y :: real
  arg_rects :: rects
  placement :: string
  elements_floating :: floating_el

datatype element_context = FloatingContext | ReferenceContext

text \<open>
  The options of \<^verbatim>\<open>inner\<close>. A field that the caller may leave out is an option, and
  the defaults of the destructuring are applied by the accessors below. The two
  callback cells \<^verbatim>\<open>onFallbackChange\<close> and \<^verbatim>\<open>overflowRef\<close> are only tested for
  presence and then written, so a flag says whether each was supplied. The remaining
  \<^verbatim>\<open>detectOverflowOptions\<close> are passed on unchanged and are part of the
  \<^verbatim>\<open>detectOverflow\<close> parameter.
\<close>

record inner_options =
  listRef :: "item_el option list"
  opt_index :: "int option"
  onFallbackChange :: bool
  opt_offset :: "real option"
  overflowRef_given :: bool
  opt_minItemsVisible :: "real option"
  opt_referenceOverflowThreshold :: "real option"

definition or_default :: "'a \<Rightarrow> 'a option \<Rightarrow> 'a" where
  "or_default d v = (case v of None \<Rightarrow> d | Some a \<Rightarrow> a)"

definition index :: "inner_options \<Rightarrow> int" where
  "index opts = or_default 0 (opt_index opts)"

definition innerOffset :: "inner_options \<Rightarrow> real" where
  "innerOffset opts = or_default 0 (opt_offset opts)"

definition minItemsVisible :: "inner_options \<Rightarrow> real" where
  "minItemsVisible opts = or_default 4 (opt_minItemsVisible opts)"

definition referenceOverflowThreshold :: "inner_options \<Rightarrow> real" where
  "referenceOverflowThreshold opts = or_default 0 (opt_referenceOverflowThreshold opts)"

text \<open>
  \<^verbatim>\<open>listRef.current[index]\<close>: JavaScript answers \<^verbatim>\<open>undefined\<close> outside the array
  and the array may hold \<^verbatim>\<open>null\<close>; both are falsy.
\<close>

definition item_at :: "item_el option list \<Rightarrow> int \<Rightarrow> item_el option" where
  "item_at xs i = (if 0 \<le> i \<and> i < int (length xs) then xs ! nat i else None)"

datatype reset = ResetRects

record middleware_return =
  ret_x :: "real option"
  ret_y :: "real option"
  ret_reset :: "reset option"

definition empty_return :: middleware_return where
  "empty_return = \<lparr>ret_x = None, ret_y = None, ret_reset = None\<rparr>"

datatype diagnostic = PlacementNotBottom | ItemDoesNotExist int

text \<open>
  What one pass does besides returning: the floating element after the pass, the
  \<^verbatim>\<open>console.warn\<close> calls, the calls of \<^verbatim>\<open>onFallbackChange\<close> and the values stored
  in \<^verbatim>\<open>overflowRef.current\<close>, each in program order.
\<close>

record pass_effects =
  floating_after :: floating_el
  warnings :: "diagnostic list"
  fallback_calls :: "bool list"
  overflowRef_writes :: "side_object list"

section \<open>The inner middleware\<close>

text \<open>
  Modelled from the spec: the offset middleware is imported from the positioning
  package and is not under \<^verbatim>\<open>src/\<close>. The spec says that it ``translates the floating
  element's position by a fixed or per-axis delta'' and that \<^verbatim>\<open>inner\<close> applies its
  number ``as a one-dimensional offset adjustment''. The one dimension is the main axis
  of the placement, the direction that leads away from the reference: the number is
  added to \<^verbatim>\<open>y\<close> for a bottom placement and subtracted from it for a top placement,
  subtracted from \<^verbatim>\<open>x\<close> for a left placement and added to it for any other side.
  The side of a placement is its text before the first hyphen.
\<close>

definition getSide :: "string \<Rightarrow> string" where
  "getSide p = takeWhile (\<lambda>c. c \<noteq> CHR ''-'') p"

definition offset_fn :: "real \<Rightarrow> middleware_arguments \<Rightarrow> middleware_arguments" where
  "offset_fn v args =
     (let side = getSide (placement args);
          mainAxisMulti = (if side = ''left'' \<or> side = ''top'' then - 1 else 1)
      in if side = ''top'' \<or> side = ''bottom''
         then args\<lparr>coord_y := coord_y args + v * mainAxisMulti\<rparr>
         else args\<lparr>coord_x := coord_x args + v * mainAxisMulti\<rparr>)"

definition startsWith :: "string \<Rightarrow> string \<Rightarrow> bool" where
  "startsWith s p = (take (length p) s = p)"

definition candidate_offset :: "inner_options \<Rightarrow> rects \<Rightarrow> item_el \<Rightarrow> real" where
  "candidate_offset opts rs item =
     - offsetTop item - height (reference rs) / 2 - offsetHeight item / 2 - innerOffset opts"

text \<open>
  \<^verbatim>\<open>inner(options).fn(middlewareArguments)\<close>. The parameters stand for what the source
  takes from outside the file: \<open>dev\<close> is the build constant \<^verbatim>\<open>__DEV__\<close>,
  \<open>detectOverflow\<close> is the overflow detector of the positioning package (with the
  caller's \<^verbatim>\<open>detectOverflowOptions\<close>), and \<open>offsetHeight_of\<close> is the rendered height
  the browser reports for the floating element in its current state.
\<close>

definition inner_fn ::
  "bool \<Rightarrow> (middleware_arguments \<Rightarrow> element_context \<Rightarrow> side_object) \<Rightarrow>
   (floating_el \<Rightarrow> real) \<Rightarrow> inner_options \<Rightarrow> middleware_arguments \<Rightarrow>
   middleware_return \<times> pass_effects" where
  "inner_fn dev detectOverflow offsetHeight_of opts args =
    (let fl = elements_floating args in
     if style_maxHeight fl \<noteq> Empty then
       (empty_return\<lparr>ret_reset := Some ResetRects\<rparr>,
        \<lparr>floating_after = fl\<lparr>style_maxHeight := Empty\<rparr>, warnings = [],
         fallback_calls = [], overflowRef_writes = []\<rparr>)
     else
       let w1 = (if dev \<and> \<not> startsWith (placement args) ''bottom''
                 then [PlacementNotBottom] else [])
       in case item_at (listRef opts) (index opts) of
            None \<Rightarrow>
              (empty_return,
               \<lparr>floating_after = fl,
                warnings = w1 @ (if dev then [ItemDoesNotExist (index opts)] else []),
                fallback_calls = [], overflowRef_writes = []\<rparr>)
          | Some item \<Rightarrow>
              let nextArgs = offset_fn (candidate_offset opts (arg_rects args) item) args;
                  overflow = detectOverflow nextArgs FloatingContext;
                  refOverflow = detectOverflow nextArgs ReferenceContext;
                  diffY = max 0 (so_top overflow);
                  nextY = coord_y nextArgs + diffY;
                  maxHeight = max 0 (scrollHeight fl - diffY - max 0 (so_bottom overflow));
                  fl' = fl\<lparr>style_maxHeight := Px maxHeight, scrollTop := diffY\<rparr>;
                  calls =
                    (if onFallbackChange opts then
                       [offsetHeight_of fl' <
                          offsetHeight item *
                            min (minItemsVisible opts) (real (length (listRef opts))) - 1
                        \<or> so_top refOverflow \<ge> - referenceOverflowThreshold opts
                        \<or> so_bottom refOverflow \<ge> - referenceOverflowThreshold opts]
                     else []);
                  writes =
                    (if overflowRef_given opts then
                       [detectOverflow
                          (nextArgs\<lparr>coord_y := nextY,
                             arg_rects := (arg_rects args)\<lparr>floating :=
                               (floating (arg_rects args))\<lparr>height := offsetHeight_of fl'\<rparr>\<rparr>\<rparr>)
                          FloatingContext]
                     else [])
              in (empty_return\<lparr>ret_y := Some nextY\<rparr>,
                  \<lparr>floating_after = fl', warnings = w1, fallback_calls = calls,
                   overflowRef_writes = writes\<rparr>))"

text \<open>
  Modelled from the spec: the overflow detector is not under \<^verbatim>\<open>src/\<close>. The spec says
  that it returns, for the chosen element, ``the signed distance the element's edge
  extends past each side of the clipping rectangle (positive = overflowing)''. The
  clipping rectangle is given here; the theorems below quantify over every detector
  and use this one only at concrete inputs.
\<close>

definition element_rect :: "middleware_arguments \<Rightarrow> element_context \<Rightarrow> rect" where
  "element_rect args ctx =
     (case ctx of
        FloatingContext \<Rightarrow>
          (floating (arg_rects args))\<lparr>rect_x := coord_x args, rect_y := coord_y args\<rparr>
      | ReferenceContext \<Rightarrow> reference (arg_rects args))"

definition detectOverflow_clip ::
  "rect \<Rightarrow> middleware_arguments \<Rightarrow> element_context \<Rightarrow> side_object" where
  "detectOverflow_clip clip args ctx =
     (let r = element_rect args ctx in
      \<lparr>so_top = rect_y clip - rect_y r,
       so_right = (rect_x r + width r) - (rect_x clip + width clip),
       so_bottom = (rect_y r + height r) - (rect_y clip + height clip),
       so_left = rect_x clip - rect_x r\<rparr>)"

text \<open>
  Modelled from the spec: the positioning pipeline that calls the middleware is not
  under \<^verbatim>\<open>src/\<close>. The spec says that each middleware ``returns a partial update
  {x?, y?, data?, reset?}'' to the accumulated coordinates, and that on a reset signal
  ``the pipeline must discard accumulated position data, remeasure rectangles, and
  restart the pipeline from the first middleware''. So a coordinate in the update
  replaces the accumulated one and a missing coordinate keeps it, while after a reset
  signal the coordinates are those computed afresh from the remeasured rectangles,
  which are the first argument here.
\<close>

definition coords_after_pass ::
  "real \<times> real \<Rightarrow> middleware_arguments \<Rightarrow> middleware_return \<Rightarrow> real \<times> real" where
  "coords_after_pass fresh args r =
     (if ret_reset r \<noteq> None then fresh
      else (or_default (coord_x args) (ret_x r), or_default (coord_y args) (ret_y r)))"

section \<open>Animation frames and listeners\<close>

text \<open>
  The hooks talk to the browser through \<^verbatim>\<open>requestAnimationFrame\<close>,
  \<^verbatim>\<open>cancelAnimationFrame\<close>, \<^verbatim>\<open>addEventListener\<close> and
  \<^verbatim>\<open>removeEventListener\<close>. The browser's side is a queue of pending callbacks,
  each under the handle that \<^verbatim>\<open>requestAnimationFrame\<close> returned (handles are
  positive, so the initial value \<^verbatim>\<open>0\<close> of a handle variable names no callback),
  and the list of registered listeners.
\<close>

datatype frame_task = BaselineCapture | Track | AutoScrollFrame

record raf =
  next_handle :: nat
  pending :: "(nat \<times> frame_task) list"

definition raf_init :: raf where
  "raf_init = \<lparr>next_handle = 1, pending = []\<rparr>"

definition requestAnimationFrame :: "frame_task \<Rightarrow> raf \<Rightarrow> nat \<times> raf" where
  "requestAnimationFrame t q =
     (next_handle q,
      \<lparr>next_handle = Suc (next_handle q), pending = pending q @ [(next_handle q, t)]\<rparr>)"

definition cancelAnimationFrame :: "nat \<Rightarrow> raf \<Rightarrow> raf" where
  "cancelAnimationFrame h q = q\<lparr>pending := filter (\<lambda>p. fst p \<noteq> h) (pending q)\<rparr>"

datatype listener = Wheel | TouchStart | TouchMove | TouchEnd

section \<open>The wheel controller (useInnerOffset)\<close>

record scroll_el =
  el_scrollHeight :: real
  el_clientHeight :: real
  el_scrollTop :: real

text \<open>
  The state the wheel effect works on: the caller's offset (the state behind
  \<^verbatim>\<open>onChange\<close>; an updater \<^verbatim>\<open>d => d + c\<close> adds \<open>c\<close> to it), the cell
  \<^verbatim>\<open>overflowRef\<close>, the hook's own refs, the element captured by the effect
  (\<^verbatim>\<open>refs.floating.current\<close>, possibly null) and the browser's queues. An assignment
  to \<^verbatim>\<open>el.scrollTop\<close> is recorded as written.
\<close>

record wheel_state =
  w_offset :: real
  w_overflowRef :: "side_object option"
  prevScrollTopRef :: "real option"
  equalHeightRef :: bool
  initialOverflowRef :: "side_object option"
  w_el :: "scroll_el option"
  w_listeners :: "listener list"
  w_raf :: raf

record wheel_event =
  ctrlKey :: bool
  deltaY :: real

text \<open>
  \<^verbatim>\<open>onWheel\<close> of the last revision. \<open>firefox\<close> is the outcome of the user agent
  test. The second component says whether \<^verbatim>\<open>e.preventDefault()\<close> was called.
\<close>

definition onWheel :: "bool \<Rightarrow> wheel_event \<Rightarrow> wheel_state \<Rightarrow> wheel_state \<times> bool" where
  "onWheel firefox e s =
    (case (w_el s, w_overflowRef s) of
       (Some el, Some ov) \<Rightarrow>
         if ctrlKey e then (s, False)
         else
           let dY = deltaY e;
               isAtTop = (so_top ov \<ge> - 0.5);
               isAtBottom = (so_bottom ov \<ge> - 0.5);
               remainingScroll = el_scrollHeight el - el_clientHeight el;
               sign = (if dY < 0 then - 1 else 1);
               s1 = (if el_scrollHeight el = el_clientHeight el \<and> \<not> equalHeightRef s \<and>
                        (case initialOverflowRef s of
                           None \<Rightarrow> False
                         | Some i \<Rightarrow> so_bottom i \<ge> - 0.5 \<or> so_top i \<ge> - 0.5)
                     then s\<lparr>w_offset := w_offset s + sign, equalHeightRef := True\<rparr>
                     else s)
           in if el_scrollHeight el \<le> el_clientHeight el then (s1, False)
              else if (\<not> isAtTop \<and> dY > 0) \<or> (\<not> isAtBottom \<and> dY < 0) then
                (s1\<lparr>w_offset := w_offset s1 +
                      (if dY < 0 then max dY (remainingScroll * sign)
                       else min dY (remainingScroll * sign))\<rparr>, True)
              else if firefox then
                (s1\<lparr>w_el := Some (el\<lparr>el_scrollTop := el_scrollTop el + dY\<rparr>)\<rparr>, False)
              else (s1, False)
     | _ \<Rightarrow> (s, False))"

text \<open>
  The effect of \<^verbatim>\<open>useInnerOffset\<close>: its body, the callback it hands to
  \<^verbatim>\<open>requestAnimationFrame\<close> and the cleanup it returns. The handle of the frame
  request is dropped by the source, so the body does not store it. The flag of the
  result says whether a cleanup was returned.
\<close>

definition useInnerOffset_effect :: "bool \<Rightarrow> bool \<Rightarrow> wheel_state \<Rightarrow> wheel_state \<times> bool" where
  "useInnerOffset_effect enabled opn s =
     (if \<not> enabled then (s, False)
      else if opn \<and> w_el s \<noteq> None then
        (s\<lparr>w_listeners := w_listeners s @ [Wheel],
           w_raf := snd (requestAnimationFrame BaselineCapture (w_raf s))\<rparr>, True)
      else (s, False))"

definition baseline_capture :: "wheel_state \<Rightarrow> wheel_state" where
  "baseline_capture s =
     (case w_el s of
        None \<Rightarrow> s
      | Some el \<Rightarrow>
          let s1 = s\<lparr>prevScrollTopRef := Some (el_scrollTop el)\<rparr>
          in (case w_overflowRef s1 of
                None \<Rightarrow> s1
              | Some ov \<Rightarrow> s1\<lparr>initialOverflowRef := Some ov\<rparr>))"

definition useInnerOffset_cleanup :: "wheel_state \<Rightarrow> wheel_state" where
  "useInnerOffset_cleanup s =
     s\<lparr>prevScrollTopRef := None, initialOverflowRef := None, equalHeightRef := False,
       w_listeners := filter (\<lambda>l. l \<noteq> Wheel) (w_listeners s)\<rparr>"

text \<open>
  The browser runs a pending callback and drops it from the queue. Only the baseline
  capture is ever queued by the wheel effect.
\<close>

definition wheel_frame :: "nat \<Rightarrow> wheel_state \<Rightarrow> wheel_state" where
  "wheel_frame h s =
     (case map_of (pending (w_raf s)) h of
        Some BaselineCapture \<Rightarrow> baseline_capture (s\<lparr>w_raf := cancelAnimationFrame h (w_raf s)\<rparr>)
      | _ \<Rightarrow> s)"

section \<open>The touch momentum controller (useTouchMomentumExpandOffset)\<close>

text \<open>
  The variables of the effect's closure, under their names in the source
  (\<^verbatim>\<open>reference\<close> is \<open>reference_y\<close> here), together with what the closure reaches
  outside: the cell \<^verbatim>\<open>overflowRef\<close>, the values handed to \<^verbatim>\<open>onChange\<close> in order (the
  caller's offset is the last of them) and the browser's queues. The handlers exist only
  while the element is there, so the test of \<^verbatim>\<open>el\<close> in \<^verbatim>\<open>scroll\<close> always succeeds.
  The cell is read by a handler before and after \<^verbatim>\<open>flushSync\<close>; the middleware
  that writes it is asynchronous and cannot run inside a handler, so one handler call
  sees one value of the cell.
\<close>

record touch_state =
  offset :: real
  velocity :: real
  amplitude :: real
  frame :: real
  ticker :: nat
  target :: real
  autoScroll :: nat
  timestamp :: real
  reference_y :: real
  pressed :: bool
  cancel :: bool
  t_overflowRef :: "side_object option"
  onChange_calls :: "real list"
  t_listeners :: "listener list"
  t_raf :: raf

definition touch_init :: touch_state where
  "touch_init =
     \<lparr>offset = 0, velocity = 0, amplitude = 0, frame = 0, ticker = 0, target = 0,
      autoScroll = 0, timestamp = 0, reference_y = 0, pressed = False, cancel = False,
      t_overflowRef = None, onChange_calls = [], t_listeners = [], t_raf = raf_init\<rparr>"

definition timeConstant :: real where
  "timeConstant = 325"

record touch_event =
  targetTouches :: "real list"
  clientY :: real
  cancelable :: bool

definition isExpandable :: "touch_state \<Rightarrow> bool" where
  "isExpandable s =
     (case t_overflowRef s of
        Some ov \<Rightarrow> so_top ov \<noteq> 0 \<or> so_bottom ov \<noteq> 0
      | None \<Rightarrow> False)"

definition yPos :: "touch_event \<Rightarrow> real" where
  "yPos e = (case targetTouches e of y # _ \<Rightarrow> y | [] \<Rightarrow> clientY e)"

definition onChange :: "real \<Rightarrow> touch_state \<Rightarrow> touch_state" where
  "onChange v s = s\<lparr>onChange_calls := onChange_calls s @ [v]\<rparr>"

definition scroll :: "real \<Rightarrow> touch_state \<Rightarrow> touch_state" where
  "scroll y s =
     (case t_overflowRef s of
        None \<Rightarrow> s
      | Some ov \<Rightarrow>
          if (so_top ov < - 0.5 \<and> y < offset s) \<or> (so_bottom ov < - 0.5 \<and> y > offset s)
          then s
          else onChange y (s\<lparr>offset := y\<rparr>))"

text \<open>
  \<^verbatim>\<open>Date.now()\<close> is an argument of the callbacks that read the clock.
  \<^verbatim>\<open>track\<close> divides by \<^verbatim>\<open>1 + elapsed\<close>. When the clock stands one millisecond
  behind the time stamp the divisor is zero and the source gets an infinite velocity or
  \<^verbatim>\<open>NaN\<close>; no real number stands for either, and the model answers \<open>None\<close>.
\<close>

definition track :: "real \<Rightarrow> touch_state \<Rightarrow> touch_state option" where
  "track now s =
     (let elapsed = now - timestamp s;
          delta = offset s - frame s
      in if 1 + elapsed = 0 then None
         else
           let v = (1000 * delta) / (1 + elapsed);
               (h, q) = requestAnimationFrame Track (t_raf s)
           in Some (s\<lparr>timestamp := now, frame := offset s,
                      velocity := 0.8 * v + 0.2 * velocity s, ticker := h, t_raf := q\<rparr>))"

definition frame_delta :: "real \<Rightarrow> touch_state \<Rightarrow> real" where
  "frame_delta now s = - amplitude s * exp (- (now - timestamp s) / timeConstant)"

definition autoScrollFrame :: "real \<Rightarrow> touch_state \<Rightarrow> touch_state" where
  "autoScrollFrame now s =
     (case t_overflowRef s of
        None \<Rightarrow> s
      | Some ov \<Rightarrow>
          if amplitude s = 0 \<or> cancel s then s
          else
            let delta = frame_delta now s in
            if delta > 0 \<and> so_top ov < - 0.5 then
              onChange (offset s - so_top ov) (s\<lparr>offset := offset s - so_top ov\<rparr>)
            else if delta < 0 \<and> so_bottom ov < - 0.5 then
              onChange (offset s + so_bottom ov) (s\<lparr>offset := offset s + so_bottom ov\<rparr>)
            else if delta > 0.5 \<or> delta < - 0.5 then
              (let s1 = scroll (target s + delta) s;
                   (h, q) = requestAnimationFrame AutoScrollFrame (t_raf s1)
               in s1\<lparr>autoScroll := h, t_raf := q\<rparr>)
            else scroll (target s) s)"

definition tap :: "real \<Rightarrow> touch_event \<Rightarrow> touch_state \<Rightarrow> touch_state" where
  "tap now e s =
     (let (h, q) = requestAnimationFrame Track (cancelAnimationFrame (ticker s) (t_raf s));
          s1 = s\<lparr>pressed := True, reference_y := yPos e, velocity := 0, amplitude := 0,
                 timestamp := now, ticker := h, t_raf := q\<rparr>
      in if \<not> isExpandable s1 then s1\<lparr>cancel := True\<rparr> else s1)"

text \<open>
  The second component of \<^verbatim>\<open>drag\<close> says whether \<^verbatim>\<open>e.preventDefault()\<close> and
  \<^verbatim>\<open>e.stopPropagation()\<close> were called (the source calls both or neither).
\<close>

definition drag :: "touch_event \<Rightarrow> touch_state \<Rightarrow> touch_state \<times> bool" where
  "drag e s =
     (let s1 = (if pressed s \<and> \<not> cancel s then
                  (let y = yPos e; delta = reference_y s - y
                   in if delta > 2 \<or> delta < - 2
                      then scroll (offset s + delta) (s\<lparr>reference_y := y\<rparr>)
                      else s)
                else s)
      in (s1, isExpandable s1 \<and> cancelable e \<and> \<not> cancel s1))"

text \<open>\<^verbatim>\<open>Math.round\<close> rounds to the nearest integer, a half towards plus infinity.\<close>

definition math_round :: "real \<Rightarrow> real" where
  "math_round v = of_int \<lfloor>v + 1 / 2\<rfloor>"

definition release :: "real \<Rightarrow> touch_state \<Rightarrow> touch_state" where
  "release now s =
     (let s1 = s\<lparr>pressed := False, t_raf := cancelAnimationFrame (ticker s) (t_raf s)\<rparr>
      in if velocity s1 > 5 \<or> velocity s1 < - 5 then
           (let a = 0.8 * velocity s1;
                (h, q) = requestAnimationFrame AutoScrollFrame (t_raf s1)
            in s1\<lparr>amplitude := a, target := math_round (offset s1 + a), timestamp := now,
                  autoScroll := h, t_raf := q\<rparr>)
         else s1)"

text \<open>The effect's body and the cleanup it returns.\<close>

definition useTouchMomentumExpandOffset_effect ::
  "bool \<Rightarrow> bool \<Rightarrow> bool \<Rightarrow> touch_state \<times> bool" where
  "useTouchMomentumExpandOffset_effect enabled el_present opn =
     (if \<not> enabled then (touch_init, False)
      else if el_present \<and> opn then
        (touch_init\<lparr>t_listeners := [TouchStart, TouchMove, TouchEnd]\<rparr>, True)
      else (touch_init, False))"

definition useTouchMomentumExpandOffset_cleanup :: "touch_state \<Rightarrow> touch_state" where
  "useTouchMomentumExpandOffset_cleanup s =
     s\<lparr>t_raf := cancelAnimationFrame (autoScroll s) (cancelAnimationFrame (ticker s) (t_raf s)),
       t_listeners :=
         filter (\<lambda>l. l \<noteq> TouchStart \<and> l \<noteq> TouchMove \<and> l \<noteq> TouchEnd) (t_listeners s)\<rparr>"








section \<open>Concrete scenes\<close>

text \<open>
  A floating list whose rendered height is its content height cut by the
  \<^verbatim>\<open>maxHeight\<close> style, a list of four item slots of which the third is empty, a
  reference button 30 pixels high and a clipping rectangle 400 pixels high.
\<close>

definition clipped_height :: "floating_el \<Rightarrow> real" where
  "clipped_height fl =
     (case style_maxHeight fl of Empty \<Rightarrow> scrollHeight fl | Px h \<Rightarrow> min h (scrollHeight fl))"

definition scene_items :: "item_el option list" where
  "scene_items =
     [Some \<lparr>offsetTop = 0, offsetHeight = 20\<rparr>, Some \<lparr>offsetTop = 20, offsetHeight = 20\<rparr>,
      None, Some \<lparr>offsetTop = 60, offsetHeight = 20\<rparr>]"

definition scene_args :: middleware_arguments where
  "scene_args =
     \<lparr>coord_x = 40, coord_y = 230,
      arg_rects = \<lparr>reference = \<lparr>rect_x = 40, rect_y = 200, width = 100, height = 30\<rparr>,
                   floating = \<lparr>rect_x = 0, rect_y = 0, width = 100, height = 80\<rparr>\<rparr>,
      placement = ''bottom-start'',
      elements_floating = \<lparr>style_maxHeight = Empty, scrollHeight = 80, scrollTop = 0\<rparr>\<rparr>"

definition scene_clip :: rect where
  "scene_clip = \<lparr>rect_x = 10, rect_y = 180, width = 330, height = 400\<rparr>"

definition scene_opts :: inner_options where
  "scene_opts =
     \<lparr>listRef = scene_items, opt_index = Some 3, onFallbackChange = True, opt_offset = None,
      overflowRef_given = True, opt_minItemsVisible = None,
      opt_referenceOverflowThreshold = None\<rparr>"

definition scene_opts_missing :: inner_options where
  "scene_opts_missing = scene_opts\<lparr>opt_index := Some 4\<rparr>"

text \<open>The same scene with the list placed above the reference.\<close>

definition scene_args_top :: middleware_arguments where
  "scene_args_top = scene_args\<lparr>placement := ''top-start''\<rparr>"

text \<open>
  An open list of 500 pixels of content in a box of 300, with five pixels of clearance
  at the top and none at the bottom.
\<close>

definition wheel_scene :: wheel_state where
  "wheel_scene =
     \<lparr>w_offset = 0,
      w_overflowRef = Some \<lparr>so_top = - 5, so_right = 0, so_bottom = 0, so_left = 0\<rparr>,
      prevScrollTopRef = Some 0, equalHeightRef = False,
      initialOverflowRef = Some \<lparr>so_top = - 5, so_right = 0, so_bottom = 0, so_left = 0\<rparr>,
      w_el = Some \<lparr>el_scrollHeight = 500, el_clientHeight = 300, el_scrollTop = 0\<rparr>,
      w_listeners = [Wheel], w_raf = raf_init\<rparr>"

text \<open>
  A pressed touch gesture at pointer position 100 with ten pixels of clearance on both
  sides, a touch at a given height, a flick with velocity \<open>-10\<close>, an Overflow Ref with a
  hundred pixels of clearance on both sides, one with both sides at their boundary,
  forty-nine frames a tenth of a second apart that find the latter, the state in which
  the first frame after releasing the flick starts, and a list that has not been opened
  yet.
\<close>

definition touch_scene :: touch_state where
  "touch_scene =
     touch_init\<lparr>pressed := True, reference_y := 100,
       t_overflowRef := Some \<lparr>so_top = - 10, so_right = 0, so_bottom = - 10, so_left = 0\<rparr>,
       t_listeners := [TouchStart, TouchMove, TouchEnd]\<rparr>"

definition touch_move :: "real \<Rightarrow> touch_event" where
  "touch_move y = \<lparr>targetTouches = [y], clientY = y, cancelable = True\<rparr>"

definition flick :: touch_state where
  "flick = touch_init\<lparr>velocity := - 10, t_listeners := [TouchStart, TouchMove, TouchEnd]\<rparr>"

definition both_clear :: side_object where
  "both_clear = \<lparr>so_top = - 100, so_right = 0, so_bottom = - 100, so_left = 0\<rparr>"



definition flick_frame :: touch_state where
  "flick_frame =
     \<lparr>offset = 0, velocity = - 10, amplitude = - 8, frame = 0, ticker = 0, target = - 8,
      autoScroll = 1, timestamp = 0, reference_y = 0, pressed = False, cancel = False,
      t_overflowRef = Some both_clear, onChange_calls = [],
      t_listeners = [TouchStart, TouchMove, TouchEnd],
      t_raf = \<lparr>next_handle = 2, pending = []\<rparr>\<rparr>"

definition wheel_unmounted :: wheel_state where
  "wheel_unmounted =
     \<lparr>w_offset = 0,
      w_overflowRef = Some \<lparr>so_top = - 5, so_right = 0, so_bottom = 0, so_left = 0\<rparr>,
      prevScrollTopRef = None, equalHeightRef = False, initialOverflowRef = None,
      w_el = Some \<lparr>el_scrollHeight = 500, el_clientHeight = 300, el_scrollTop = 35\<rparr>,
      w_listeners = [], w_raf = raf_init\<rparr>"

lemmas scene_simps = scene_items_def scene_args_def scene_clip_def scene_opts_def
  scene_opts_missing_def clipped_height_def detectOverflow_clip_def element_rect_def
  item_at_def index_def innerOffset_def minItemsVisible_def referenceOverflowThreshold_def
  or_default_def

section \<open>Properties of the inner middleware\<close>

text \<open>
  C1, as the code has it. The claim gives the returned \<^verbatim>\<open>y\<close> as the incoming
  \<^verbatim>\<open>y\<close> plus the candidate offset plus \<open>diffY\<close> for every pass that finds the item.
  The offset middleware applies the candidate offset along the main axis of the
  placement, and \<^verbatim>\<open>inner\<close> only warns (in a development build) when the placement is
  not on the bottom side. With the placement \<^verbatim>\<open>top-start\<close> the candidate offset
  \<open>-85\<close> is subtracted: the candidate position is \<open>315\<close>, nothing overflows, and the
  pass returns \<open>315\<close> with a \<^verbatim>\<open>maxHeight\<close> of 80 pixels and a \<^verbatim>\<open>scrollTop\<close> of
  zero, where the claim's sum is \<open>230 - 85 + 35 = 180\<close>.
\<close>

theorem inner_aligns_item_counterexample:
  "style_maxHeight (elements_floating scene_args_top) = Empty \<and>
   item_at (listRef scene_opts) (index scene_opts) = Some \<lparr>offsetTop = 60, offsetHeight = 20\<rparr> \<and>
   inner_fn True (detectOverflow_clip scene_clip) clipped_height scene_opts scene_args_top =
     (\<lparr>ret_x = None, ret_y = Some 315, ret_reset = None\<rparr>,
      \<lparr>floating_after = \<lparr>style_maxHeight = Px 80, scrollHeight = 80, scrollTop = 0\<rparr>,
       warnings = [PlacementNotBottom], fallback_calls = [False],
       overflowRef_writes =
         [\<lparr>so_top = - 135, so_right = - 200, so_bottom = - 185, so_left = - 30\<rparr>]\<rparr>) \<and>
   coord_y scene_args_top + (- 60 - 30 / 2 - 20 / 2 - 0) = 145 \<and>
   so_top (detectOverflow_clip scene_clip (scene_args_top\<lparr>coord_y := 145\<rparr>) FloatingContext) = 35 \<and>
   so_top (detectOverflow_clip scene_clip (scene_args_top\<lparr>coord_y := 315\<rparr>) FloatingContext)
     = - 135"
  by (simp add: inner_fn_def empty_return_def Let_def offset_fn_def getSide_def
      candidate_offset_def startsWith_def scene_args_top_def scene_simps)

text \<open>
  C1, amended. In a pass that finds no \<^verbatim>\<open>maxHeight\<close> style on the floating element,
  finds the item at the index and has a placement on the bottom side (the side the
  middleware asks for), the returned \<^verbatim>\<open>y\<close> is the incoming \<^verbatim>\<open>y\<close> plus the candidate
  offset plus \<open>diffY\<close>, where \<open>diffY\<close> is the top overflow of the floating element at
  the candidate position, cut below at zero. The pass writes
  \<open>max(0, scrollHeight - diffY - max(0, bottom overflow))\<close> pixels into the
  \<^verbatim>\<open>maxHeight\<close> style and \<open>diffY\<close> into \<^verbatim>\<open>scrollTop\<close>.
\<close>

theorem inner_aligns_item:
  assumes "style_maxHeight (elements_floating args) = Empty"
    and "item_at (listRef opts) (index opts) = Some item"
    and "getSide (placement args) = ''bottom''"
  shows "let cand = - offsetTop item - height (reference (arg_rects args)) / 2
                    - offsetHeight item / 2 - innerOffset opts;
             overflow = detectOverflow (args\<lparr>coord_y := coord_y args + cand\<rparr>) FloatingContext;
             diffY = max 0 (so_top overflow);
             (r, e) = inner_fn dev detectOverflow offsetHeight_of opts args
         in ret_y r = Some (coord_y args + cand + diffY) \<and>
            style_maxHeight (floating_after e) =
              Px (max 0 (scrollHeight (elements_floating args) - diffY
                         - max 0 (so_bottom overflow))) \<and>
            scrollTop (floating_after e) = diffY"
  using assms
  by (simp add: inner_fn_def empty_return_def Let_def offset_fn_def candidate_offset_def)

theorem inner_aligns_item_witness:
  "style_maxHeight (elements_floating scene_args) = Empty \<and>
   item_at (listRef scene_opts) (index scene_opts) = Some \<lparr>offsetTop = 60, offsetHeight = 20\<rparr> \<and>
   getSide (placement scene_args) = ''bottom'' \<and>
   ret_y (fst (inner_fn True (detectOverflow_clip scene_clip) clipped_height scene_opts scene_args))
     = Some 180 \<and>
   style_maxHeight (floating_after (snd (inner_fn True (detectOverflow_clip scene_clip)
                          clipped_height scene_opts scene_args))) = Px 45 \<and>
   scrollTop (floating_after (snd (inner_fn True (detectOverflow_clip scene_clip)
                          clipped_height scene_opts scene_args))) = 35"
proof -
  have a: "style_maxHeight (elements_floating scene_args) = Empty"
    by (simp add: scene_args_def)
  have b: "item_at (listRef scene_opts) (index scene_opts)
             = Some \<lparr>offsetTop = 60, offsetHeight = 20\<rparr>"
    by (simp add: scene_simps)
  have c: "getSide (placement scene_args) = ''bottom''"
    by (simp add: getSide_def scene_args_def)
  show ?thesis
    using inner_aligns_item [OF a b c, where dev = True
        and detectOverflow = "detectOverflow_clip scene_clip" and offsetHeight_of = clipped_height]
      a b c
    by (simp add: Let_def scene_simps split: prod.splits)
qed

text \<open>
  C2. In a pass that reaches the fallback decision (no \<^verbatim>\<open>maxHeight\<close> style at entry,
  item found) with \<^verbatim>\<open>onFallbackChange\<close> supplied, the callback is called exactly once;
  its argument is true exactly when the rendered height of the floating element (read
  after the style was written) is below
  \<open>item.offsetHeight * min(minItemsVisible, list length) - 1\<close>, or the top overflow of
  the reference element is at least \<open>-referenceOverflowThreshold\<close>, or its bottom
  overflow is. The overflow of the reference element is taken at the candidate
  position, that is, after the offset middleware has applied the candidate offset.
\<close>

theorem inner_fallback_decision:
  assumes "style_maxHeight (elements_floating args) = Empty"
    and "item_at (listRef opts) (index opts) = Some item"
    and "onFallbackChange opts"
  shows "let cand = - offsetTop item - height (reference (arg_rects args)) / 2
                    - offsetHeight item / 2 - innerOffset opts;
             refOverflow = detectOverflow (offset_fn cand args) ReferenceContext;
             e = snd (inner_fn dev detectOverflow offsetHeight_of opts args)
         in fallback_calls e =
              [offsetHeight_of (floating_after e) <
                 offsetHeight item * min (minItemsVisible opts) (real (length (listRef opts))) - 1
               \<or> so_top refOverflow \<ge> - referenceOverflowThreshold opts
               \<or> so_bottom refOverflow \<ge> - referenceOverflowThreshold opts]"
  using assms
  by (simp add: inner_fn_def empty_return_def Let_def candidate_offset_def)

text \<open>
  In the scene the rendered height is 45 pixels. With the default of four visible items
  the threshold is \<open>20 * 4 - 1 = 79\<close> and the callback gets true; with two visible
  items the threshold is 39, the reference is clear of both edges, and it gets false.
\<close>

theorem inner_fallback_decision_witness:
  "style_maxHeight (elements_floating scene_args) = Empty \<and>
   item_at (listRef scene_opts) (index scene_opts) = Some \<lparr>offsetTop = 60, offsetHeight = 20\<rparr> \<and>
   onFallbackChange scene_opts \<and>
   fallback_calls (snd (inner_fn True (detectOverflow_clip scene_clip) clipped_height
                          scene_opts scene_args)) = [True] \<and>
   fallback_calls (snd (inner_fn True (detectOverflow_clip scene_clip) clipped_height
                          (scene_opts\<lparr>opt_minItemsVisible := Some 2\<rparr>) scene_args)) = [False]"
proof -
  have a: "style_maxHeight (elements_floating scene_args) = Empty"
    by (simp add: scene_args_def)
  have b: "item_at (listRef scene_opts) (index scene_opts)
             = Some \<lparr>offsetTop = 60, offsetHeight = 20\<rparr>"
    by (simp add: scene_simps)
  have b': "item_at (listRef (scene_opts\<lparr>opt_minItemsVisible := Some 2\<rparr>))
              (index (scene_opts\<lparr>opt_minItemsVisible := Some 2\<rparr>))
             = Some \<lparr>offsetTop = 60, offsetHeight = 20\<rparr>"
    by (simp add: scene_simps)
  have c: "onFallbackChange scene_opts"
    by (simp add: scene_opts_def)
  have c': "onFallbackChange (scene_opts\<lparr>opt_minItemsVisible := Some 2\<rparr>)"
    by (simp add: scene_opts_def)
  have d: "floating_after (snd (inner_fn True (detectOverflow_clip scene_clip) clipped_height
                          scene_opts scene_args))
            = \<lparr>style_maxHeight = Px 45, scrollHeight = 80, scrollTop = 35\<rparr>"
    by (simp add: inner_fn_def Let_def scene_simps offset_fn_def getSide_def
        candidate_offset_def)
  have d': "floating_after (snd (inner_fn True (detectOverflow_clip scene_clip) clipped_height
                          (scene_opts\<lparr>opt_minItemsVisible := Some 2\<rparr>) scene_args))
            = \<lparr>style_maxHeight = Px 45, scrollHeight = 80, scrollTop = 35\<rparr>"
    by (simp add: inner_fn_def Let_def scene_simps offset_fn_def getSide_def
        candidate_offset_def)
  show ?thesis
    using inner_fallback_decision [OF a b c, where dev = True
        and detectOverflow = "detectOverflow_clip scene_clip" and offsetHeight_of = clipped_height]
      inner_fallback_decision [OF a b' c', where dev = True
        and detectOverflow = "detectOverflow_clip scene_clip" and offsetHeight_of = clipped_height]
      a b c
    by (simp add: Let_def d d') (simp add: scene_simps offset_fn_def getSide_def)
qed

text \<open>
  C5. When the floating element's \<^verbatim>\<open>maxHeight\<close> style is non-empty at entry, the pass
  clears that style and returns exactly the reset signal for the rectangles: no
  coordinate, no warning, no fallback call, no overflow write, and nothing else of the
  element changes. The return value holds one reset signal.
\<close>

theorem inner_reset_when_maxHeight_set:
  assumes "style_maxHeight (elements_floating args) \<noteq> Empty"
  shows "inner_fn dev detectOverflow offsetHeight_of opts args =
           (\<lparr>ret_x = None, ret_y = None, ret_reset = Some ResetRects\<rparr>,
            \<lparr>floating_after = (elements_floating args)\<lparr>style_maxHeight := Empty\<rparr>,
             warnings = [], fallback_calls = [], overflowRef_writes = []\<rparr>)"
  using assms by (simp add: inner_fn_def empty_return_def)

theorem inner_reset_when_maxHeight_set_witness:
  "inner_fn True (detectOverflow_clip scene_clip) clipped_height scene_opts
     (scene_args\<lparr>elements_floating :=
        \<lparr>style_maxHeight = Px 45, scrollHeight = 80, scrollTop = 35\<rparr>\<rparr>) =
     (\<lparr>ret_x = None, ret_y = None, ret_reset = Some ResetRects\<rparr>,
      \<lparr>floating_after = \<lparr>style_maxHeight = Empty, scrollHeight = 80, scrollTop = 35\<rparr>,
       warnings = [], fallback_calls = [], overflowRef_writes = []\<rparr>)"
  using inner_reset_when_maxHeight_set [where dev = True
      and detectOverflow = "detectOverflow_clip scene_clip" and offsetHeight_of = clipped_height
      and opts = scene_opts
      and args = "scene_args\<lparr>elements_floating :=
        \<lparr>style_maxHeight = Px 45, scrollHeight = 80, scrollTop = 35\<rparr>\<rparr>"]
  by simp

text \<open>
  C6, as the code has it. The claim promises a warning and an empty update whenever the
  item is missing. The code differs in two places: the warning sits under the build
  constant \<^verbatim>\<open>__DEV__\<close>, so a production build stays silent, and the test of the
  \<^verbatim>\<open>maxHeight\<close> style comes first, so a pass that finds the style set clears it and
  returns the reset signal whether or not the item exists.
\<close>

theorem inner_missing_item_counterexample:
  "warnings (snd (inner_fn False (detectOverflow_clip scene_clip) clipped_height
                    scene_opts_missing scene_args)) = [] \<and>
   inner_fn True (detectOverflow_clip scene_clip) clipped_height scene_opts_missing
       (scene_args\<lparr>elements_floating := (elements_floating scene_args)\<lparr>style_maxHeight := Px 45\<rparr>\<rparr>) =
     (\<lparr>ret_x = None, ret_y = None, ret_reset = Some ResetRects\<rparr>,
      \<lparr>floating_after = \<lparr>style_maxHeight = Empty, scrollHeight = 80, scrollTop = 0\<rparr>,
       warnings = [], fallback_calls = [], overflowRef_writes = []\<rparr>)"
  by (simp add: inner_fn_def empty_return_def scene_simps startsWith_def)

text \<open>
  C6, amended. In a pass that finds no \<^verbatim>\<open>maxHeight\<close> style at entry and no item at the
  index (index outside the list, or an empty slot), the middleware returns the empty
  update, leaves the floating element as it was, calls no fallback callback and writes
  no overflow; it is a total function, so nothing is thrown. In a development build it
  warns that the item does not exist (after the placement warning, if the placement
  does not start with \<^verbatim>\<open>bottom\<close>); in a production build it warns nothing.
\<close>

theorem inner_missing_item:
  assumes "style_maxHeight (elements_floating args) = Empty"
    and "item_at (listRef opts) (index opts) = None"
  shows "inner_fn dev detectOverflow offsetHeight_of opts args =
           (\<lparr>ret_x = None, ret_y = None, ret_reset = None\<rparr>,
            \<lparr>floating_after = elements_floating args,
             warnings = (if dev \<and> \<not> startsWith (placement args) ''bottom''
                         then [PlacementNotBottom] else [])
                        @ (if dev then [ItemDoesNotExist (index opts)] else []),
             fallback_calls = [], overflowRef_writes = []\<rparr>)"
  using assms by (simp add: inner_fn_def empty_return_def)

theorem inner_missing_item_witness:
  "style_maxHeight (elements_floating scene_args) = Empty \<and>
   item_at (listRef scene_opts_missing) (index scene_opts_missing) = None \<and>
   inner_fn True (detectOverflow_clip scene_clip) clipped_height scene_opts_missing scene_args =
     (\<lparr>ret_x = None, ret_y = None, ret_reset = None\<rparr>,
      \<lparr>floating_after = elements_floating scene_args,
       warnings = [ItemDoesNotExist 4], fallback_calls = [], overflowRef_writes = []\<rparr>)"
proof -
  have a: "style_maxHeight (elements_floating scene_args) = Empty"
    by (simp add: scene_args_def)
  have b: "item_at (listRef scene_opts_missing) (index scene_opts_missing) = None"
    by (simp add: scene_simps)
  have c: "startsWith (placement scene_args) ''bottom''"
    by (simp add: startsWith_def scene_args_def)
  have d: "index scene_opts_missing = 4"
    by (simp add: scene_simps)
  show ?thesis
    using inner_missing_item [OF a b, where dev = True
        and detectOverflow = "detectOverflow_clip scene_clip" and offsetHeight_of = clipped_height]
      a b c d
    by simp
qed

text \<open>
  C10, as the code has it. The claim concludes from the missing \<^verbatim>\<open>x\<close> field that the
  accumulated \<^verbatim>\<open>x\<close> is the same before and after every pass, the reset pass
  included. A reset signal makes the pipeline drop the accumulated coordinates and
  start again from the coordinates of the remeasured rectangles. If the accumulated
  \<^verbatim>\<open>x\<close> is 40 when the middleware finds the \<^verbatim>\<open>maxHeight\<close> style set, and
  remeasuring gives 25, the \<^verbatim>\<open>x\<close> after the pass is 25.
\<close>

theorem inner_keeps_x_counterexample:
  "coord_x scene_args = 40 \<and>
   ret_x (fst (inner_fn True (detectOverflow_clip scene_clip) clipped_height scene_opts
     (scene_args\<lparr>elements_floating :=
        \<lparr>style_maxHeight = Px 45, scrollHeight = 80, scrollTop = 35\<rparr>\<rparr>))) = None \<and>
   fst (coords_after_pass (25, 230)
     (scene_args\<lparr>elements_floating :=
        \<lparr>style_maxHeight = Px 45, scrollHeight = 80, scrollTop = 35\<rparr>\<rparr>)
     (fst (inner_fn True (detectOverflow_clip scene_clip) clipped_height scene_opts
       (scene_args\<lparr>elements_floating :=
          \<lparr>style_maxHeight = Px 45, scrollHeight = 80, scrollTop = 35\<rparr>\<rparr>)))) = 25"
  by (simp add: inner_fn_def empty_return_def coords_after_pass_def scene_args_def)

text \<open>
  C10, amended. The update returned by the middleware never has an \<^verbatim>\<open>x\<close> field, in
  the reset branch, the missing-item branch and the alignment branch alike. In the
  missing-item branch and the alignment branch (no \<^verbatim>\<open>maxHeight\<close> style at entry) the
  accumulated \<^verbatim>\<open>x\<close> after the pass is the one that entered it. In the reset branch
  the pipeline discards the accumulated coordinates, and the coordinates after the pass
  are those of the remeasured rectangles.
\<close>

theorem inner_keeps_x:
  "ret_x (fst (inner_fn dev detectOverflow offsetHeight_of opts args)) = None \<and>
   (style_maxHeight (elements_floating args) = Empty \<longrightarrow>
      fst (coords_after_pass fresh args
             (fst (inner_fn dev detectOverflow offsetHeight_of opts args))) = coord_x args) \<and>
   (style_maxHeight (elements_floating args) \<noteq> Empty \<longrightarrow>
      coords_after_pass fresh args
        (fst (inner_fn dev detectOverflow offsetHeight_of opts args)) = fresh)"
  by (simp add: inner_fn_def empty_return_def coords_after_pass_def or_default_def Let_def
      split: option.split)

text \<open>
  In the scene the alignment pass turns the coordinates \<open>(40, 230)\<close> into
  \<open>(40, 180)\<close>, and the pass with a missing item leaves them as they are.
\<close>

theorem inner_keeps_x_witness:
  "style_maxHeight (elements_floating scene_args) = Empty \<and>
   coords_after_pass (25, 230) scene_args
     (fst (inner_fn True (detectOverflow_clip scene_clip) clipped_height scene_opts scene_args))
     = (40, 180) \<and>
   coords_after_pass (25, 230) scene_args
     (fst (inner_fn True (detectOverflow_clip scene_clip) clipped_height scene_opts_missing
        scene_args))
     = (40, 230) \<and>
   coords_after_pass (25, 230)
     (scene_args\<lparr>elements_floating :=
        \<lparr>style_maxHeight = Px 45, scrollHeight = 80, scrollTop = 35\<rparr>\<rparr>)
     (fst (inner_fn True (detectOverflow_clip scene_clip) clipped_height scene_opts
       (scene_args\<lparr>elements_floating :=
          \<lparr>style_maxHeight = Px 45, scrollHeight = 80, scrollTop = 35\<rparr>\<rparr>)))
     = (25, 230)"
proof -
  have a: "style_maxHeight (elements_floating scene_args) = Empty"
    by (simp add: scene_args_def)
  have y: "ret_y (fst (inner_fn True (detectOverflow_clip scene_clip) clipped_height
                         scene_opts scene_args)) = Some 180"
    "ret_reset (fst (inner_fn True (detectOverflow_clip scene_clip) clipped_height
                         scene_opts scene_args)) = None"
    by (simp_all add: inner_fn_def empty_return_def Let_def offset_fn_def getSide_def
        candidate_offset_def scene_simps)
  have m: "fst (inner_fn True (detectOverflow_clip scene_clip) clipped_height
                  scene_opts_missing scene_args) = empty_return"
    by (simp add: inner_fn_def scene_simps)
  have c: "coord_x scene_args = 40" "coord_y scene_args = 230"
    by (simp_all add: scene_args_def)
  show ?thesis
    using inner_keeps_x [where dev = True and detectOverflow = "detectOverflow_clip scene_clip"
            and offsetHeight_of = clipped_height and opts = scene_opts and args = scene_args
            and fresh = "(25, 230)"]
          inner_keeps_x [where dev = True and detectOverflow = "detectOverflow_clip scene_clip"
            and offsetHeight_of = clipped_height and opts = scene_opts
            and args = "scene_args\<lparr>elements_floating :=
                \<lparr>style_maxHeight = Px 45, scrollHeight = 80, scrollTop = 35\<rparr>\<rparr>"
            and fresh = "(25, 230)"]
          a y c
    by (simp add: coords_after_pass_def or_default_def m empty_return_def prod_eq_iff)
qed

section \<open>Properties of the wheel controller\<close>

text \<open>
  C3, as the code has it. The claim's example says that with the Overflow Ref
  \<open>{top: -5, bottom: 0}\<close> a \<open>deltaY\<close> of \<open>-40\<close> lowers the offset by 40. The handler
  intercepts a negative delta only when the bottom is not at its boundary; here the
  bottom is, so the event passes through and the offset stays.
\<close>

theorem onWheel_offset_counterexample:
  "onWheel False \<lparr>ctrlKey = False, deltaY = - 40\<rparr> wheel_scene = (wheel_scene, False) \<and>
   w_offset (fst (onWheel False \<lparr>ctrlKey = False, deltaY = - 40\<rparr> wheel_scene))
     \<noteq> w_offset wheel_scene - 40"
  by (simp add: onWheel_def wheel_scene_def)

text \<open>
  C3, amended. For a wheel event on the open floating element (element present, Overflow
  Ref present, content scrollable) without the zoom modifier: when the Overflow Ref is
  at the top boundary (\<open>top \<ge> -0.5\<close>) and \<open>deltaY\<close> is positive, or at the bottom
  boundary (\<open>bottom \<ge> -0.5\<close>) and \<open>deltaY\<close> is negative, the handler does not prevent
  the default and leaves the offset alone; on Firefox it adds \<open>deltaY\<close> to the
  element's \<^verbatim>\<open>scrollTop\<close>, elsewhere it changes nothing. In particular, with the
  Overflow Ref \<open>{top: -5, bottom: 0}\<close> a \<open>deltaY\<close> of \<open>-40\<close> passes through in this
  way, and a \<open>deltaY\<close> of \<open>40\<close> is intercepted and raises the offset by
  \<open>min(40, scrollHeight - clientHeight)\<close>.
\<close>

theorem onWheel_at_boundary:
  assumes "w_el s = Some el" and "el_clientHeight el < el_scrollHeight el"
    and "w_overflowRef s = Some ov"
  shows "(\<not> ctrlKey e \<and>
          ((so_top ov \<ge> - 0.5 \<and> deltaY e > 0) \<or> (so_bottom ov \<ge> - 0.5 \<and> deltaY e < 0))
          \<longrightarrow> onWheel firefox e s =
                (if firefox
                 then s\<lparr>w_el := Some (el\<lparr>el_scrollTop := el_scrollTop el + deltaY e\<rparr>)\<rparr>
                 else s, False)) \<and>
         (so_top ov = - 5 \<and> so_bottom ov = 0 \<longrightarrow>
            onWheel firefox \<lparr>ctrlKey = False, deltaY = - 40\<rparr> s =
                (if firefox
                 then s\<lparr>w_el := Some (el\<lparr>el_scrollTop := el_scrollTop el + (- 40)\<rparr>)\<rparr>
                 else s, False) \<and>
            onWheel firefox \<lparr>ctrlKey = False, deltaY = 40\<rparr> s =
                (s\<lparr>w_offset := w_offset s + min 40 (el_scrollHeight el - el_clientHeight el)\<rparr>,
                 True))"
  using assms by (auto simp add: onWheel_def Let_def)

theorem onWheel_at_boundary_witness:
  "onWheel False \<lparr>ctrlKey = False, deltaY = 40\<rparr>
     (wheel_scene\<lparr>w_overflowRef := Some \<lparr>so_top = 0, so_right = 0, so_bottom = - 5, so_left = 0\<rparr>\<rparr>)
     = (wheel_scene\<lparr>w_overflowRef := Some \<lparr>so_top = 0, so_right = 0, so_bottom = - 5, so_left = 0\<rparr>\<rparr>,
        False) \<and>
   onWheel False \<lparr>ctrlKey = False, deltaY = - 40\<rparr> wheel_scene = (wheel_scene, False) \<and>
   onWheel False \<lparr>ctrlKey = False, deltaY = 40\<rparr> wheel_scene =
     (wheel_scene\<lparr>w_offset := 40\<rparr>, True) \<and>
   onWheel True \<lparr>ctrlKey = False, deltaY = - 40\<rparr> wheel_scene =
     (wheel_scene\<lparr>w_el := Some \<lparr>el_scrollHeight = 500, el_clientHeight = 300,
                                   el_scrollTop = - 40\<rparr>\<rparr>, False)"
proof -
  let ?el = "\<lparr>el_scrollHeight = 500, el_clientHeight = 300, el_scrollTop = 0\<rparr>"
  let ?ov = "\<lparr>so_top = - 5, so_right = 0, so_bottom = 0, so_left = 0\<rparr>"
  let ?ov' = "\<lparr>so_top = 0, so_right = 0, so_bottom = - 5, so_left = 0\<rparr>"
  have a: "w_el wheel_scene = Some ?el" by (simp add: wheel_scene_def)
  have a': "w_el (wheel_scene\<lparr>w_overflowRef := Some ?ov'\<rparr>) = Some ?el"
    by (simp add: wheel_scene_def)
  have b: "el_clientHeight ?el < el_scrollHeight ?el" by simp
  have c: "w_overflowRef wheel_scene = Some ?ov" by (simp add: wheel_scene_def)
  have c': "w_overflowRef (wheel_scene\<lparr>w_overflowRef := Some ?ov'\<rparr>) = Some ?ov'" by simp
  have d: "w_offset wheel_scene = 0" by (simp add: wheel_scene_def)
  show ?thesis
    using onWheel_at_boundary [OF a b c, where firefox = False
            and e = "\<lparr>ctrlKey = False, deltaY = - 40\<rparr>"]
          onWheel_at_boundary [OF a b c, where firefox = True
            and e = "\<lparr>ctrlKey = False, deltaY = - 40\<rparr>"]
          onWheel_at_boundary [OF a' b c', where firefox = False
            and e = "\<lparr>ctrlKey = False, deltaY = 40\<rparr>"] d
    by simp
qed

text \<open>
  C4. Whenever the handler intercepts a wheel event (it called \<^verbatim>\<open>preventDefault\<close>), the
  offset changes by the wheel delta clamped to the remaining scrollable distance
  \<open>scrollHeight - clientHeight\<close>: \<open>min(deltaY, remaining)\<close> for a downward delta,
  \<open>max(deltaY, -remaining)\<close> for an upward one. So one event moves the offset by at
  most the remaining distance, and by no more than the delta itself.
\<close>

theorem onWheel_intercept_clamped:
  assumes "onWheel firefox e s = (s', True)"
  shows "\<exists>el. w_el s = Some el \<and>
           w_offset s' = w_offset s +
             (if deltaY e < 0 then max (deltaY e) (- (el_scrollHeight el - el_clientHeight el))
              else min (deltaY e) (el_scrollHeight el - el_clientHeight el)) \<and>
           \<bar>w_offset s' - w_offset s\<bar> \<le> el_scrollHeight el - el_clientHeight el \<and>
           \<bar>w_offset s' - w_offset s\<bar> \<le> \<bar>deltaY e\<bar>"
  using assms
  by (auto simp add: onWheel_def Let_def split: option.splits if_splits)

text \<open>A delta of 340 with 200 pixels left moves the offset by 200.\<close>

theorem onWheel_intercept_clamped_witness:
  "onWheel False \<lparr>ctrlKey = False, deltaY = 340\<rparr> wheel_scene = (wheel_scene\<lparr>w_offset := 200\<rparr>, True)
   \<and> (\<exists>el. w_el wheel_scene = Some el \<and>
           w_offset (wheel_scene\<lparr>w_offset := 200\<rparr>) = w_offset wheel_scene +
             (if deltaY \<lparr>ctrlKey = False, deltaY = 340\<rparr> < 0
              then max (deltaY \<lparr>ctrlKey = False, deltaY = 340\<rparr>) (- (el_scrollHeight el - el_clientHeight el))
              else min (deltaY \<lparr>ctrlKey = False, deltaY = 340\<rparr>) (el_scrollHeight el - el_clientHeight el)) \<and>
           \<bar>w_offset (wheel_scene\<lparr>w_offset := 200\<rparr>) - w_offset wheel_scene\<bar>
              \<le> el_scrollHeight el - el_clientHeight el \<and>
           \<bar>w_offset (wheel_scene\<lparr>w_offset := 200\<rparr>) - w_offset wheel_scene\<bar>
              \<le> \<bar>deltaY \<lparr>ctrlKey = False, deltaY = 340\<rparr>\<bar>)"
proof -
  have a: "onWheel False \<lparr>ctrlKey = False, deltaY = 340\<rparr> wheel_scene
             = (wheel_scene\<lparr>w_offset := 200\<rparr>, True)"
    by (simp add: onWheel_def wheel_scene_def)
  show ?thesis
    using onWheel_intercept_clamped [OF a] a by simp
qed


section \<open>Properties of the touch momentum controller\<close>

text \<open>
  C8, as the code has it. The claim says that a move of more than two pixels shifts the
  offset by the delta, clamped at the overflow boundaries. The code has no clamp: the
  gate in \<^verbatim>\<open>scroll\<close> lets the whole delta through or none of it, and it looks at the
  clearance of the side the move leaves behind. With ten pixels of clearance at the top
  and at the bottom a move of three pixels could pass neither boundary, and yet the
  offset stays where it is and \<^verbatim>\<open>onChange\<close> is not called. With both sides at their
  boundary (top overflow \<open>-0.2\<close>, bottom overflow \<open>0\<close>) a move of forty pixels goes
  through in full.
\<close>

theorem drag_counterexample:
  "reference_y touch_scene - yPos (touch_move 97) = 3 \<and>
   pressed touch_scene \<and> \<not> cancel touch_scene \<and>
   t_overflowRef touch_scene = Some \<lparr>so_top = - 10, so_right = 0, so_bottom = - 10, so_left = 0\<rparr> \<and>
   offset (fst (drag (touch_move 97) touch_scene)) = offset touch_scene \<and>
   onChange_calls (fst (drag (touch_move 97) touch_scene)) = [] \<and>
   reference_y touch_scene - yPos (touch_move 60) = 40 \<and>
   offset (fst (drag (touch_move 60)
     (touch_scene\<lparr>t_overflowRef :=
        Some \<lparr>so_top = - 0.2, so_right = 0, so_bottom = 0, so_left = 0\<rparr>\<rparr>)))
     = offset touch_scene + 40"
  by (simp add: drag_def scroll_def onChange_def touch_scene_def touch_move_def yPos_def
      touch_init_def isExpandable_def Let_def)

text \<open>
  C8, amended. For a touch move while the gesture is pressed and not cancelled: if the
  pointer moved by more than two pixels since the reference point, the reference point
  becomes the pointer position, and the controller's offset is raised by the whole
  delta and handed to \<^verbatim>\<open>onChange\<close>, unless the Overflow Ref is absent or the gate
  blocks the move (top overflow below \<open>-0.5\<close> and the delta negative, or bottom
  overflow below \<open>-0.5\<close> and the delta positive), in which case the offset stays and
  \<^verbatim>\<open>onChange\<close> is not called. A smaller move changes nothing. The default is
  prevented and propagation stopped exactly when the content is expandable (Overflow
  Ref present with a nonzero top or bottom overflow) and the event is cancelable.
\<close>

theorem drag_moves_or_blocks:
  assumes "pressed s" and "\<not> cancel s"
  shows "let y = yPos e; delta = reference_y s - y; s' = fst (drag e s) in
           (delta > 2 \<or> delta < - 2 \<longrightarrow>
              reference_y s' = y \<and>
              (if t_overflowRef s = None \<or>
                  (\<exists>ov. t_overflowRef s = Some ov \<and>
                        ((so_top ov < - 0.5 \<and> delta < 0) \<or> (so_bottom ov < - 0.5 \<and> delta > 0)))
               then offset s' = offset s \<and> onChange_calls s' = onChange_calls s
               else offset s' = offset s + delta \<and>
                    onChange_calls s' = onChange_calls s @ [offset s + delta])) \<and>
           (\<not> (delta > 2 \<or> delta < - 2) \<longrightarrow> s' = s) \<and>
           (snd (drag e s) \<longleftrightarrow> isExpandable s \<and> cancelable e)"
  using assms
  by (auto simp add: drag_def scroll_def onChange_def isExpandable_def Let_def split: option.splits)

theorem drag_moves_or_blocks_witness:
  "pressed touch_scene \<and> \<not> cancel touch_scene \<and>
   fst (drag (touch_move 60)
          (touch_scene\<lparr>t_overflowRef := Some \<lparr>so_top = - 5, so_right = 0, so_bottom = 0, so_left = 0\<rparr>\<rparr>)) =
     touch_scene\<lparr>t_overflowRef := Some \<lparr>so_top = - 5, so_right = 0, so_bottom = 0, so_left = 0\<rparr>,
                 reference_y := 60, offset := 40, onChange_calls := [40]\<rparr> \<and>
   snd (drag (touch_move 60)
          (touch_scene\<lparr>t_overflowRef := Some \<lparr>so_top = - 5, so_right = 0, so_bottom = 0, so_left = 0\<rparr>\<rparr>)) \<and>
   reference_y (fst (drag (touch_move 97) touch_scene)) = 97 \<and>
   offset (fst (drag (touch_move 97) touch_scene)) = 0 \<and>
   fst (drag (touch_move 99) touch_scene) = touch_scene"
proof -
  let ?s = "touch_scene\<lparr>t_overflowRef := Some \<lparr>so_top = - 5, so_right = 0, so_bottom = 0, so_left = 0\<rparr>\<rparr>"
  have a: "pressed touch_scene" "pressed ?s" by (simp_all add: touch_scene_def touch_init_def)
  have b: "\<not> cancel touch_scene" "\<not> cancel ?s" by (simp_all add: touch_scene_def touch_init_def)
  have full: "fst (drag (touch_move 60) ?s) =
     touch_scene\<lparr>t_overflowRef := Some \<lparr>so_top = - 5, so_right = 0, so_bottom = 0, so_left = 0\<rparr>,
                 reference_y := 60, offset := 40, onChange_calls := [40]\<rparr>"
    by (simp add: drag_def scroll_def onChange_def touch_scene_def touch_move_def yPos_def
        touch_init_def Let_def)
  show ?thesis
    using drag_moves_or_blocks [OF a(2) b(2), of "touch_move 60"]
          drag_moves_or_blocks [OF a(1) b(1), of "touch_move 97"]
          drag_moves_or_blocks [OF a(1) b(1), of "touch_move 99"] a b full
    by (simp add: Let_def touch_move_def yPos_def isExpandable_def)
       (simp add: touch_scene_def touch_init_def)
qed

subsection \<open>The deceleration loop\<close>



lemma frame_delta_sign:
  "(frame_delta now s > 0 \<longleftrightarrow> amplitude s < 0) \<and> (frame_delta now s < 0 \<longleftrightarrow> amplitude s > 0)"
  by (simp add: frame_delta_def zero_less_mult_iff mult_less_0_iff)

lemma frame_delta_pos_iff: "0 < frame_delta now s \<longleftrightarrow> amplitude s < 0"
  using frame_delta_sign [of now s] by simp

lemma frame_delta_neg_iff: "frame_delta now s < 0 \<longleftrightarrow> 0 < amplitude s"
  using frame_delta_sign [of now s] by simp













section \<open>Teardown\<close>

text \<open>
  C9, evaluated on the code. The claim asks that closing the list cancels every pending
  animation frame, the baseline capture of the wheel effect among them. The effect of
  \<^verbatim>\<open>useInnerOffset\<close> drops the handle of its frame request, and its cleanup only
  resets the refs and removes the listener. Opening a list and closing it before the
  next frame leaves the capture in the browser's queue; when it runs, it stores the
  element's \<^verbatim>\<open>scrollTop\<close> and the Overflow Ref in the refs that the cleanup had just
  reset.
\<close>

theorem baseline_capture_outlives_cleanup:
  "useInnerOffset_effect True True wheel_unmounted =
     (wheel_unmounted\<lparr>w_listeners := [Wheel],
        w_raf := \<lparr>next_handle = 2, pending = [(1, BaselineCapture)]\<rparr>\<rparr>, True) \<and>
   useInnerOffset_cleanup (fst (useInnerOffset_effect True True wheel_unmounted)) =
     wheel_unmounted\<lparr>w_raf := \<lparr>next_handle = 2, pending = [(1, BaselineCapture)]\<rparr>\<rparr> \<and>
   wheel_frame 1 (useInnerOffset_cleanup (fst (useInnerOffset_effect True True wheel_unmounted))) =
     wheel_unmounted\<lparr>prevScrollTopRef := Some 35,
        initialOverflowRef := Some \<lparr>so_top = - 5, so_right = 0, so_bottom = 0, so_left = 0\<rparr>,
        w_raf := \<lparr>next_handle = 2, pending = []\<rparr>\<rparr>"
  by (simp add: useInnerOffset_effect_def useInnerOffset_cleanup_def wheel_frame_def
      baseline_capture_def wheel_unmounted_def raf_init_def requestAnimationFrame_def
      cancelAnimationFrame_def Let_def)

text \<open>
  The sibling effect does cancel: the cleanup of the touch controller takes the frames
  named by \<^verbatim>\<open>ticker\<close> and \<^verbatim>\<open>autoScroll\<close> off the queue and removes the three touch
  listeners. It cancels the two handles it remembers: \<^verbatim>\<open>release\<close> overwrites
  \<^verbatim>\<open>autoScroll\<close> without cancelling the frame it named, so after two releases in a
  row (two fingers lifted one after the other) the first deceleration frame outlives
  the cleanup, and when it runs it hands a new offset to \<^verbatim>\<open>onChange\<close>.
\<close>

lemma touch_cleanup_cancels:
  "map_of (pending (t_raf (useTouchMomentumExpandOffset_cleanup s))) (ticker s) = None \<and>
   map_of (pending (t_raf (useTouchMomentumExpandOffset_cleanup s))) (autoScroll s) = None \<and>
   TouchStart \<notin> set (t_listeners (useTouchMomentumExpandOffset_cleanup s)) \<and>
   TouchMove \<notin> set (t_listeners (useTouchMomentumExpandOffset_cleanup s)) \<and>
   TouchEnd \<notin> set (t_listeners (useTouchMomentumExpandOffset_cleanup s))"
  by (auto simp add: useTouchMomentumExpandOffset_cleanup_def cancelAnimationFrame_def
      map_of_eq_None_iff)

lemma second_release_leaks_frame:
  "pending (t_raf (release 8 (release 0 (flick\<lparr>t_overflowRef := Some both_clear\<rparr>)))) =
     [(1, AutoScrollFrame), (2, AutoScrollFrame)] \<and>
   useTouchMomentumExpandOffset_cleanup
      (release 8 (release 0 (flick\<lparr>t_overflowRef := Some both_clear\<rparr>))) =
     flick_frame\<lparr>timestamp := 8, autoScroll := 2, t_listeners := [],
        t_raf := \<lparr>next_handle = 3, pending = [(1, AutoScrollFrame)]\<rparr>\<rparr> \<and>
   onChange_calls (autoScrollFrame 16
      (flick_frame\<lparr>timestamp := 8, autoScroll := 2, t_listeners := [],
         t_raf := \<lparr>next_handle = 3, pending = []\<rparr>\<rparr>)) = [100]"
proof -
  have r: "release 8 (release 0 (flick\<lparr>t_overflowRef := Some both_clear\<rparr>)) =
     flick_frame\<lparr>timestamp := 8, autoScroll := 2,
        t_raf := \<lparr>next_handle = 3, pending = [(1, AutoScrollFrame), (2, AutoScrollFrame)]\<rparr>\<rparr>"
    by (simp add: release_def flick_def flick_frame_def touch_init_def raf_init_def Let_def
      requestAnimationFrame_def cancelAnimationFrame_def math_round_def)
  show ?thesis
    unfolding r
    by (simp add: useTouchMomentumExpandOffset_cleanup_def cancelAnimationFrame_def
        autoScrollFrame_def Let_def onChange_def frame_delta_pos_iff
        flick_frame_def both_clear_def)
qed

end
